theory Spec2Isabelle
  imports Main
begin

section \<open>Data model (types.ts)\<close>

text \<open>
  The enums and interfaces of the claim platform.  An optional field (\<open>f?: T\<close>) is an
  \<open>option\<close>; \<open>undefined\<close> is \<open>None\<close>.  The fields \<open>id\<close> and \<open>text\<close> are renamed
  \<open>claim_id\<close>, \<open>comment_id\<close> and \<open>comment_text\<close>, since the plain names are taken.
\<close>

datatype UserRole = Policyholder | RepairShop | InsuranceAgent

datatype ClaimStatus =
  Submitted | AIReview | Estimated | Approved | InRepair | PickUpPending | Closed | Rejected

text \<open>The string value of a \<open>UserRole\<close> member (used where the code stores the role as a name).\<close>

fun role_string :: "UserRole \<Rightarrow> string" where
  "role_string Policyholder = ''Policyholder''"
| "role_string RepairShop = ''Repair Shop''"
| "role_string InsuranceAgent = ''Insurance Agent''"

subsection \<open>JavaScript numbers\<close>

text \<open>
  Costs are JavaScript numbers, that is IEEE-754 binary64 values.  \<open>Finite m e\<close> is the
  value \<open>m * 2 ^ e\<close>, kept in canonical form (\<open>m\<close> odd, or \<open>m = 0\<close> and \<open>e = 0\<close>), so that
  equal values are equal terms; \<open>Finite 0 0\<close> is the positive zero and \<open>NegZero\<close> the negative
  one.  TypeScript's types are erased when the code runs, so a field declared \<open>number\<close>
  holds \<open>undefined\<close> when it was read from an object that lacks it: that is \<open>Undefined\<close>.

  \<open>fl neg a e\<close> rounds the exact value \<open>a * 2 ^ e\<close> (\<open>a\<close> not negative), taken with the sign
  \<open>neg\<close>, to the nearest binary64 value, ties to even, with gradual underflow below
  \<open>2 ^ -1022\<close> and overflow to infinity.
\<close>

datatype number = Finite int int | NegZero | PosInf | NegInf | NaN | Undefined

function bits :: "int \<Rightarrow> int" where
  "bits a = (if a \<le> 0 then 0 else bits (a div 2) + 1)"
  by pat_completeness auto
termination
  by (relation "measure nat") auto

function norm :: "int \<Rightarrow> int \<Rightarrow> number" where
  "norm m e = (if m = 0 then Finite 0 0
               else if even m then norm (m div 2) (e + 1)
               else Finite m e)"
  by pat_completeness auto
termination
  by (relation "measure (\<lambda>(m, e). nat \<bar>m\<bar>)") auto

definition infinity :: "bool \<Rightarrow> number" where
  "infinity neg = (if neg then NegInf else PosInf)"

definition pack :: "bool \<Rightarrow> int \<Rightarrow> int \<Rightarrow> number" where
  "pack neg q e =
     (if q = 0 then (if neg then NegZero else Finite 0 0)
      else if bits q + e > 1024 then infinity neg
      else norm (if neg then - q else q) e)"

definition fl :: "bool \<Rightarrow> int \<Rightarrow> int \<Rightarrow> number" where
  "fl neg a e =
     (let s = max (bits a - 53) (- 1074 - e)
      in if s \<le> 0 then pack neg a e
         else let q = a div 2 ^ nat s;
                  r = a mod 2 ^ nat s;
                  h = 2 ^ nat (s - 1)
              in pack neg (if r > h \<or> (r = h \<and> odd q) then q + 1 else q) (e + s))"

text \<open>Sign, magnitude and exponent of a finite number; the sign of any number; the values
  that \<open>ToNumber\<close> turns into \<open>NaN\<close>.\<close>

fun finite_parts :: "number \<Rightarrow> (bool \<times> int \<times> int) option" where
  "finite_parts (Finite m e) = Some (m < 0, \<bar>m\<bar>, e)"
| "finite_parts NegZero = Some (True, 0, 0)"
| "finite_parts PosInf = None"
| "finite_parts NegInf = None"
| "finite_parts NaN = None"
| "finite_parts Undefined = None"

fun negative :: "number \<Rightarrow> bool" where
  "negative (Finite m e) = (m < 0)"
| "negative NegZero = True"
| "negative NegInf = True"
| "negative PosInf = False"
| "negative NaN = False"
| "negative Undefined = False"

fun not_a_number :: "number \<Rightarrow> bool" where
  "not_a_number NaN = True"
| "not_a_number Undefined = True"
| "not_a_number (Finite m e) = False"
| "not_a_number NegZero = False"
| "not_a_number PosInf = False"
| "not_a_number NegInf = False"

text \<open>The operators \<open>*\<close> and \<open>+\<close> on numbers, and strict equality \<open>===\<close>.\<close>

definition num_mul :: "number \<Rightarrow> number \<Rightarrow> number" where
  "num_mul x y =
     (if not_a_number x \<or> not_a_number y then NaN
      else case (finite_parts x, finite_parts y) of
             (Some (n1, a1, e1), Some (n2, a2, e2)) \<Rightarrow> fl (n1 \<noteq> n2) (a1 * a2) (e1 + e2)
           | (Some (n1, a1, e1), None) \<Rightarrow>
               if a1 = 0 then NaN else infinity (n1 \<noteq> negative y)
           | (None, Some (n2, a2, e2)) \<Rightarrow>
               if a2 = 0 then NaN else infinity (negative x \<noteq> n2)
           | (None, None) \<Rightarrow> infinity (negative x \<noteq> negative y))"

definition num_add :: "number \<Rightarrow> number \<Rightarrow> number" where
  "num_add x y =
     (if not_a_number x \<or> not_a_number y then NaN
      else case (finite_parts x, finite_parts y) of
             (Some (n1, a1, e1), Some (n2, a2, e2)) \<Rightarrow>
               let e = min e1 e2;
                   s = (if n1 then - a1 else a1) * 2 ^ nat (e1 - e)
                       + (if n2 then - a2 else a2) * 2 ^ nat (e2 - e)
               in if s = 0 then (if n1 \<and> n2 then NegZero else Finite 0 0)
                  else fl (s < 0) \<bar>s\<bar> e
           | (Some (n1, a1, e1), None) \<Rightarrow> y
           | (None, Some (n2, a2, e2)) \<Rightarrow> x
           | (None, None) \<Rightarrow> if x = y then x else NaN)"

definition is_zero :: "number \<Rightarrow> bool" where
  "is_zero x = (x = Finite 0 0 \<or> x = NegZero)"

definition strict_eq :: "number \<Rightarrow> number \<Rightarrow> bool" where
  "strict_eq a b = (a \<noteq> NaN \<and> b \<noteq> NaN \<and> (a = b \<or> (is_zero a \<and> is_zero b)))"

text \<open>An integer literal, and the literals \<open>0.6\<close> and \<open>0.4\<close> (their nearest binary64 values).\<close>

definition num_of_int :: "int \<Rightarrow> number" where
  "num_of_int i = fl (i < 0) \<bar>i\<bar> 0"

definition lit_0_6 :: number where
  "lit_0_6 = Finite 5404319552844595 (- 53)"

definition lit_0_4 :: number where
  "lit_0_4 = Finite 3602879701896397 (- 53)"

subsection \<open>Records\<close>

record Comment =
  comment_id :: string
  authorRole :: UserRole
  authorName :: string
  comment_text :: string
  timestamp :: int

datatype EstimateSource = SourceAI | SourceRepairShop | SourceInsuranceAgent

text \<open>The field \<open>details\<close> is declared a string; like a number field it holds \<open>undefined\<close>
  (here \<open>None\<close>) when it was read from an object that lacks it.\<close>

record Estimate =
  totalCost :: number
  laborCost :: number
  partsCost :: number
  details :: "string option"
  source :: EstimateSource

record RepairShopSuggestion =
  name :: string
  address :: string
  rating :: "string option"
  websiteUri :: "string option"

record Claim =
  claim_id :: string
  policyNumber :: string
  policyholderName :: string
  vehicleModel :: string
  vehicleYear :: string
  accidentDetails :: string
  status :: ClaimStatus
  damageImages :: "string list"
  aiDamageAssessment :: "string option"
  aiEstimate :: "Estimate option"
  aiConfidenceScore :: "number option"
  suggestedShops :: "RepairShopSuggestion list option"
  currentEstimate :: "Estimate option"
  repairShopEstimate :: "Estimate option"
  agentEstimate :: "Estimate option"
  comments :: "Comment list"
  createdAt :: int
  updatedAt :: int

section \<open>Platform functions\<close>

text \<open>
  \<open>Date.now()\<close> is read by the handlers; every reading is an argument of the model (a
  handler that reads the clock twice takes two readings).  \<open>toString\<close> renders such a
  reading in decimal, as \<open>Number.prototype.toString\<close> does for an integer.
\<close>

definition digit :: "int \<Rightarrow> char" where
  "digit d = ''0123456789'' ! nat d"

function decimal :: "int \<Rightarrow> string" where
  "decimal n = (if n < 10 then [digit n] else decimal (n div 10) @ [digit (n mod 10)])"
  by pat_completeness auto
termination
  by (relation "measure nat") auto

definition toString :: "int \<Rightarrow> string" where
  "toString n = (if n < 0 then CHR ''-'' # decimal (- n) else decimal n)"

text \<open>
  \<open>String.prototype.trim\<close>.  A character of the model is a code unit below 256; the white
  space and line terminators among these are tab, line feed, vertical tab, form feed,
  carriage return, space and the no-break space.
\<close>

definition is_space :: "char \<Rightarrow> bool" where
  "is_space c =
     (c \<in> set [CHR 0x09, CHR 0x0A, CHR 0x0B, CHR 0x0C, CHR 0x0D, CHR '' '', CHR 0xA0])"

definition trim :: "string \<Rightarrow> string" where
  "trim s = rev (dropWhile is_space (rev (dropWhile is_space s)))"

text \<open>
  The remaining platform functions are parameters: \<open>parseFloat\<close>, and \<open>formatCurrency\<close>
  (an \<open>Intl.NumberFormat\<close> for US dollars).
\<close>

record Platform =
  parseFloat :: "string \<Rightarrow> number"
  formatCurrency :: "number \<Rightarrow> string"

section \<open>The handlers of the claim view (ClaimDetail)\<close>

text \<open>
  A handler either returns early or hands one updated record to \<open>onUpdateClaim\<close>, which
  replaces the claim of the same id in the store.  Each handler is modelled by the record
  the store holds for the claim afterwards: the updated record, or the claim itself after
  an early return.  The handlers that \<open>push\<close> onto \<open>updatedClaim.comments\<close> write to the
  array the old record shares; the old record is replaced in the same synchronous call, so
  the store ends with the array extended by one entry.
\<close>

definition handleAddComment :: "int \<Rightarrow> int \<Rightarrow> UserRole \<Rightarrow> string \<Rightarrow> Claim \<Rightarrow> Claim" where
  "handleAddComment now1 now2 userRole commentText claim =
     (if trim commentText = [] then claim
      else claim\<lparr>comments := comments claim @
             [\<lparr>comment_id = toString now1, authorRole = userRole,
               authorName = role_string userRole, comment_text = commentText,
               timestamp = now2\<rparr>]\<rparr>)"

definition handleStatusChange :: "ClaimStatus \<Rightarrow> Claim \<Rightarrow> Claim" where
  "handleStatusChange newStatus claim = claim\<lparr>status := newStatus\<rparr>"

definition handleRejectClaim :: "int \<Rightarrow> int \<Rightarrow> string \<Rightarrow> Claim \<Rightarrow> Claim" where
  "handleRejectClaim now1 now2 rejectReason claim =
     (if rejectReason = [] then claim
      else claim\<lparr>status := Rejected,
             comments := comments claim @
               [\<lparr>comment_id = toString now1, authorRole = InsuranceAgent,
                 authorName = ''Agent'',
                 comment_text = ''CLAIM REJECTED: '' @ rejectReason,
                 timestamp = now2\<rparr>]\<rparr>)"

definition newEstimate :: "Platform \<Rightarrow> UserRole \<Rightarrow> string \<Rightarrow> string \<Rightarrow> Estimate" where
  "newEstimate p userRole negotiationAmount negotiationReason =
     (let amount = parseFloat p negotiationAmount
      in \<lparr>totalCost = amount,
          laborCost = num_mul amount lit_0_6,
          partsCost = num_mul amount lit_0_4,
          details = Some negotiationReason,
          source = (if userRole = InsuranceAgent then SourceInsuranceAgent
                    else SourceRepairShop)\<rparr>)"

definition negotiationComment ::
  "Platform \<Rightarrow> int \<Rightarrow> int \<Rightarrow> UserRole \<Rightarrow> string \<Rightarrow> string \<Rightarrow> Comment" where
  "negotiationComment p now1 now2 userRole negotiationAmount negotiationReason =
     \<lparr>comment_id = toString now1, authorRole = userRole,
      authorName = role_string userRole,
      comment_text = ''Proposed new estimate: ''
        @ formatCurrency p (parseFloat p negotiationAmount)
        @ ''. Reason: '' @ negotiationReason,
      timestamp = now2\<rparr>"

definition handleNegotiate ::
  "Platform \<Rightarrow> int \<Rightarrow> int \<Rightarrow> UserRole \<Rightarrow> string \<Rightarrow> string \<Rightarrow> Claim \<Rightarrow> Claim" where
  "handleNegotiate p now1 now2 userRole negotiationAmount negotiationReason claim =
     (if negotiationAmount = [] \<or> negotiationReason = [] then claim
      else
        let est = newEstimate p userRole negotiationAmount negotiationReason;
            updatedClaim =
              (if userRole = RepairShop then claim\<lparr>repairShopEstimate := Some est\<rparr>
               else if userRole = InsuranceAgent then
                 claim\<lparr>agentEstimate := Some est, currentEstimate := Some est\<rparr>
               else claim)
        in updatedClaim\<lparr>comments := comments updatedClaim @
             [negotiationComment p now1 now2 userRole negotiationAmount negotiationReason]\<rparr>)"

definition handleApproveEstimate :: "Claim \<Rightarrow> Claim" where
  "handleApproveEstimate claim = claim\<lparr>status := Approved\<rparr>"

text \<open>\<open>handleUpdateClaim\<close> of the application: the store replaces the claim of the same id.\<close>

definition handleUpdateClaim :: "Claim \<Rightarrow> Claim list \<Rightarrow> Claim list" where
  "handleUpdateClaim updatedClaim prev =
     map (\<lambda>c. if claim_id c = claim_id updatedClaim then updatedClaim else c) prev"

section \<open>The controls of the claim view\<close>

text \<open>
  The view renders a control only under a condition on the selected role and the claim,
  and some buttons carry a \<open>disabled\<close> attribute computed from the form fields.  A click
  on a control that is rendered and enabled runs its handler; nothing else can be clicked.
  The form fields are the component's \<open>useState\<close> values; their reset after a handler has
  run is left out, since no handler reads it.
\<close>

record FormState =
  commentText :: string
  negotiationAmount :: string
  negotiationReason :: string
  rejectReason :: string
  loading :: bool

datatype Control =
  ApproveEstimateButton | StartRepairButton | RepairCompletedButton | PickUpCompletedButton
  | DenyAndRejectButton | SubmitAdjustmentButton | SendCommentButton

fun rendered :: "UserRole \<Rightarrow> Claim \<Rightarrow> Control \<Rightarrow> bool" where
  "rendered userRole claim ApproveEstimateButton =
     (userRole = InsuranceAgent \<and> status claim = Estimated)"
| "rendered userRole claim StartRepairButton =
     (userRole = RepairShop \<and> status claim = Approved)"
| "rendered userRole claim RepairCompletedButton =
     (userRole = RepairShop \<and> status claim = InRepair)"
| "rendered userRole claim PickUpCompletedButton =
     (userRole = Policyholder \<and> status claim = PickUpPending)"
| "rendered userRole claim DenyAndRejectButton =
     (userRole = InsuranceAgent \<and> status claim \<noteq> Closed \<and> status claim \<noteq> Rejected)"
| "rendered userRole claim SubmitAdjustmentButton =
     ((userRole = RepairShop \<or> userRole = InsuranceAgent)
      \<and> status claim \<noteq> Closed \<and> status claim \<noteq> Rejected)"
| "rendered userRole claim SendCommentButton = True"

fun disabled :: "FormState \<Rightarrow> Control \<Rightarrow> bool" where
  "disabled fs DenyAndRejectButton = (rejectReason fs = [])"
| "disabled fs SubmitAdjustmentButton =
     (loading fs \<or> negotiationAmount fs = [] \<or> negotiationReason fs = [])"
| "disabled fs _ = False"

fun onClick ::
  "Platform \<Rightarrow> int \<Rightarrow> int \<Rightarrow> UserRole \<Rightarrow> FormState \<Rightarrow> Control \<Rightarrow> Claim \<Rightarrow> Claim" where
  "onClick p now1 now2 userRole fs ApproveEstimateButton claim = handleApproveEstimate claim"
| "onClick p now1 now2 userRole fs StartRepairButton claim = handleStatusChange InRepair claim"
| "onClick p now1 now2 userRole fs RepairCompletedButton claim =
     handleStatusChange PickUpPending claim"
| "onClick p now1 now2 userRole fs PickUpCompletedButton claim =
     handleStatusChange Closed claim"
| "onClick p now1 now2 userRole fs DenyAndRejectButton claim =
     handleRejectClaim now1 now2 (rejectReason fs) claim"
| "onClick p now1 now2 userRole fs SubmitAdjustmentButton claim =
     handleNegotiate p now1 now2 userRole (negotiationAmount fs) (negotiationReason fs) claim"
| "onClick p now1 now2 userRole fs SendCommentButton claim =
     handleAddComment now1 now2 userRole (commentText fs) claim"

definition click ::
  "Platform \<Rightarrow> int \<Rightarrow> int \<Rightarrow> UserRole \<Rightarrow> FormState \<Rightarrow> Control \<Rightarrow> Claim \<Rightarrow> Claim option" where
  "click p now1 now2 userRole fs ctl claim =
     (if rendered userRole claim ctl \<and> \<not> disabled fs ctl
      then Some (onClick p now1 now2 userRole fs ctl claim) else None)"

section \<open>The transition table of the specification\<close>

text \<open>
  The table of section 4.1 of the specification, row by row, for comparison with the
  code: actor, status before, intent, status after.  The last row of the table (rejection
  from any non-terminal status) is one row per non-terminal status.
\<close>

datatype Actor = SystemActor | RoleActor UserRole

datatype Intent =
  AIProcessingAccepted | AssessmentComplete | AIGatewayFailure | ApproveEstimate
  | VehicleReceived | RepairCompleted | PickupConfirmed | RejectWithReason

definition spec_table_rows :: "((Actor \<times> ClaimStatus \<times> Intent) \<times> ClaimStatus) list" where
  "spec_table_rows =
     [((SystemActor, Submitted, AIProcessingAccepted), AIReview),
      ((SystemActor, AIReview, AssessmentComplete), Estimated),
      ((SystemActor, AIReview, AIGatewayFailure), Submitted),
      ((RoleActor InsuranceAgent, Estimated, ApproveEstimate), Approved),
      ((RoleActor RepairShop, Approved, VehicleReceived), InRepair),
      ((RoleActor RepairShop, InRepair, RepairCompleted), PickUpPending),
      ((RoleActor Policyholder, PickUpPending, PickupConfirmed), Closed)]
     @ map (\<lambda>s. ((RoleActor InsuranceAgent, s, RejectWithReason), Rejected))
         [Submitted, AIReview, Estimated, Approved, InRepair, PickUpPending]"

definition spec_transition_table ::
  "Actor \<Rightarrow> ClaimStatus \<Rightarrow> Intent \<Rightarrow> ClaimStatus option" where
  "spec_transition_table actor from intent = map_of spec_table_rows (actor, from, intent)"

text \<open>The intent a control of the view stands for (none for the two controls that are
  not status transitions).\<close>

fun control_intent :: "Control \<Rightarrow> Intent option" where
  "control_intent ApproveEstimateButton = Some ApproveEstimate"
| "control_intent StartRepairButton = Some VehicleReceived"
| "control_intent RepairCompletedButton = Some RepairCompleted"
| "control_intent PickUpCompletedButton = Some PickupConfirmed"
| "control_intent DenyAndRejectButton = Some RejectWithReason"
| "control_intent SubmitAdjustmentButton = None"
| "control_intent SendCommentButton = None"


section \<open>The AI service (geminiService)\<close>

text \<open>
  The asynchronous functions are modelled by their outcome: \<open>Inl\<close> a rejection (a thrown
  error), \<open>Inr\<close> the resolved value.  What the browser and the remote model deliver is a
  parameter: \<open>fileToGenerativePart\<close> (a \<open>FileReader\<close> run on one file), \<open>generateContent\<close>
  (the remote call, by its request) and \<open>JSON_parse\<close>.  A request is identified by what
  the code puts into it: the image parts and the vehicle description of the damage prompt,
  or the location of the repair-shop prompt.

  \<open>JSON.parse\<close> throws, or returns \<open>null\<close>, or returns a value whose five properties the
  code reads.  A property that is there is read at the type of the response schema; one
  that is not there reads as \<open>undefined\<close> (every property of a value that is not an object
  does).  The text \<open>{}\<close> always decodes to the object with no property.

  The grounding chunks of a response are read by the code at type \<open>any\<close>: the value, when
  it is truthy, is an array or not, and an entry of the array is an object or \<open>null\<close> (or
  \<open>undefined\<close>).
\<close>

datatype js_error = JsError string

record File =
  file_name :: string
  file_type :: string

record GenerativePart =
  data :: string
  mimeType :: string

record WebChunk =
  uri :: "string option"
  title :: "string option"

record GroundingChunk =
  web :: "WebChunk option"

datatype ChunkValue = NullChunk | ChunkObject GroundingChunk

datatype ChunksValue = ChunkArray "ChunkValue list" | NotAnArray

record GroundingMetadata =
  groundingChunks :: "ChunksValue option"

record Candidate =
  groundingMetadata :: "GroundingMetadata option"

record GenerateContentResponse =
  response_text :: "string option"
  candidates :: "Candidate list option"

record DamageJSON =
  json_assessment :: "string option"
  json_totalCost :: number
  json_laborCost :: number
  json_partsCost :: number
  json_repairDetails :: "string option"

datatype json = JNull | JObject DamageJSON

datatype Request = DamageRequest "GenerativePart list" string | ShopsRequest string

record Services =
  fileToGenerativePart :: "File \<Rightarrow> js_error + GenerativePart"
  generateContent :: "Request \<Rightarrow> js_error + GenerateContentResponse"
  JSON_parse :: "string \<Rightarrow> js_error + json"

definition empty_object :: DamageJSON where
  "empty_object =
     \<lparr>json_assessment = None, json_totalCost = Undefined, json_laborCost = Undefined,
      json_partsCost = Undefined, json_repairDetails = None\<rparr>"

definition parse_text :: "Services \<Rightarrow> string \<Rightarrow> js_error + json" where
  "parse_text sv t = (if t = ''{}'' then Inr (JObject empty_object) else JSON_parse sv t)"

text \<open>\<open>Promise.all\<close>: all the values, or a rejection when one of the promises rejects.\<close>

fun promise_all :: "('e + 'a) list \<Rightarrow> 'e + 'a list" where
  "promise_all [] = Inr []"
| "promise_all (Inl e # rs) = Inl e"
| "promise_all (Inr x # rs) =
     (case promise_all rs of Inl e \<Rightarrow> Inl e | Inr xs \<Rightarrow> Inr (x # xs))"

text \<open>The value \<open>analyzeDamage\<close> resolves with.  Its \<open>assessment\<close> is declared a string and
  is \<open>undefined\<close> (\<open>None\<close>) when the decoded object lacks it.\<close>

record DamageAnalysis =
  assessment :: "string option"
  estimate :: Estimate

text \<open>The body of the \<open>try\<close> block of \<open>analyzeDamage\<close>: the remote call, the decoding of
  \<open>response.text || "{}"\<close>, and the result built from the properties of the decoded value
  (reading a property of \<open>null\<close> throws a \<open>TypeError\<close>).\<close>

definition damage_try :: "Services \<Rightarrow> GenerativePart list \<Rightarrow> string \<Rightarrow> js_error + DamageAnalysis" where
  "damage_try sv imageParts vehicleInfo =
     (case generateContent sv (DamageRequest imageParts vehicleInfo) of
        Inl e \<Rightarrow> Inl e
      | Inr response \<Rightarrow>
          (case parse_text sv
                  (case response_text response of
                     None \<Rightarrow> ''{}''
                   | Some t \<Rightarrow> if t = [] then ''{}'' else t) of
             Inl e \<Rightarrow> Inl e
           | Inr JNull \<Rightarrow> Inl (JsError ''TypeError'')
           | Inr (JObject result) \<Rightarrow>
               Inr \<lparr>assessment = json_assessment result,
                    estimate = \<lparr>totalCost = json_totalCost result,
                                laborCost = json_laborCost result,
                                partsCost = json_partsCost result,
                                details = json_repairDetails result,
                                source = SourceAI\<rparr>\<rparr>))"

text \<open>The value returned from the \<open>catch\<close> block of \<open>analyzeDamage\<close>.\<close>

definition damage_fallback :: DamageAnalysis where
  "damage_fallback =
     \<lparr>assessment = Some ''AI Analysis unavailable. Please review manually.'',
      estimate = \<lparr>totalCost = num_of_int 0, laborCost = num_of_int 0,
                  partsCost = num_of_int 0, details = Some ''Manual estimation required.'',
                  source = SourceAI\<rparr>\<rparr>"

text \<open>\<open>analyzeDamage\<close>: the image files are read before the \<open>try\<close> block, so a failed read
  rejects; a failure inside the \<open>try\<close> block is caught.\<close>

definition analyzeDamage :: "Services \<Rightarrow> File list \<Rightarrow> string \<Rightarrow> js_error + DamageAnalysis" where
  "analyzeDamage sv imageFiles vehicleInfo =
     (case promise_all (map (fileToGenerativePart sv) imageFiles) of
        Inl e \<Rightarrow> Inl e
      | Inr imageParts \<Rightarrow>
          (case damage_try sv imageParts vehicleInfo of
             Inl error \<Rightarrow> Inr damage_fallback
           | Inr r \<Rightarrow> Inr r))"

text \<open>\<open>findRepairShops\<close>.  The chunks are
  \<open>response.candidates?.[0]?.groundingMetadata?.groundingChunks\<close>.  When they are truthy,
  \<open>chunks.forEach\<close> visits them in order and pushes one suggestion for each chunk whose
  \<open>web\<close> part has a non-empty \<open>uri\<close> and \<open>title\<close>; the call throws a \<open>TypeError\<close> when the
  chunks are not an array, and so does \<open>chunk.web\<close> on a \<open>null\<close> chunk.  All of this is
  inside the \<open>try\<close> block, whose \<open>catch\<close> block returns the empty list.\<close>

definition response_chunks :: "GenerateContentResponse \<Rightarrow> ChunksValue option" where
  "response_chunks response =
     (case candidates response of
        None \<Rightarrow> None
      | Some [] \<Rightarrow> None
      | Some (c # cs) \<Rightarrow>
          (case groundingMetadata c of None \<Rightarrow> None | Some g \<Rightarrow> groundingChunks g))"

definition truthy :: "string option \<Rightarrow> bool" where
  "truthy v = (case v of None \<Rightarrow> False | Some t \<Rightarrow> t \<noteq> [])"

definition chunk_suggestion :: "GroundingChunk \<Rightarrow> RepairShopSuggestion list" where
  "chunk_suggestion chunk =
     (case web chunk of
        None \<Rightarrow> []
      | Some w \<Rightarrow>
          (case title w of
             None \<Rightarrow> []
           | Some t \<Rightarrow>
               if truthy (uri w) \<and> truthy (title w)
               then [\<lparr>name = t, address = ''Check website for address'',
                      rating = None, websiteUri = uri w\<rparr>]
               else []))"

fun forEach_chunk :: "ChunkValue list \<Rightarrow> js_error + RepairShopSuggestion list" where
  "forEach_chunk [] = Inr []"
| "forEach_chunk (NullChunk # chunks) = Inl (JsError ''TypeError'')"
| "forEach_chunk (ChunkObject chunk # chunks) =
     (case forEach_chunk chunks of
        Inl e \<Rightarrow> Inl e
      | Inr suggestions \<Rightarrow> Inr (chunk_suggestion chunk @ suggestions))"

definition extract_suggestions ::
  "GenerateContentResponse \<Rightarrow> js_error + RepairShopSuggestion list" where
  "extract_suggestions response =
     (case response_chunks response of
        None \<Rightarrow> Inr []
      | Some NotAnArray \<Rightarrow> Inl (JsError ''TypeError'')
      | Some (ChunkArray chunks) \<Rightarrow> forEach_chunk chunks)"

definition fixed_shops :: "RepairShopSuggestion list" where
  "fixed_shops =
     [\<lparr>name = ''FixItRight Auto Body'', address = ''123 Main St, Local City'',
       rating = Some ''4.8'', websiteUri = None\<rparr>,
      \<lparr>name = ''Prestige Collision Center'', address = ''450 Oak Ave, Local City'',
       rating = Some ''4.5'', websiteUri = None\<rparr>,
      \<lparr>name = ''Quick Fix Garage'', address = ''789 Pine Ln, Local City'',
       rating = Some ''4.2'', websiteUri = None\<rparr>]"

text \<open>The body of the \<open>try\<close> block of \<open>findRepairShops\<close>, and the function.\<close>

definition shops_try :: "Services \<Rightarrow> string \<Rightarrow> js_error + RepairShopSuggestion list" where
  "shops_try sv locationDesc =
     (case generateContent sv (ShopsRequest locationDesc) of
        Inl e \<Rightarrow> Inl e
      | Inr response \<Rightarrow>
          (case extract_suggestions response of
             Inl e \<Rightarrow> Inl e
           | Inr suggestions \<Rightarrow>
               Inr (if suggestions = [] then fixed_shops else suggestions)))"

definition findRepairShops :: "Services \<Rightarrow> string \<Rightarrow> RepairShopSuggestion list" where
  "findRepairShops sv locationDesc =
     (case shops_try sv locationDesc of
        Inl error \<Rightarrow> []
      | Inr shops \<Rightarrow> shops)"

section \<open>Claim intake (App)\<close>

record CreateClaimData =
  new_policyNumber :: string
  new_vehicleModel :: string
  new_vehicleYear :: string
  new_accidentDetails :: string
  images :: "File list"

text \<open>The mock claim the store starts with; the three arguments are the clock readings
  taken while the module loads.\<close>

definition INITIAL_CLAIMS :: "int \<Rightarrow> int \<Rightarrow> int \<Rightarrow> Claim list" where
  "INITIAL_CLAIMS now1 now2 now3 =
     [\<lparr>claim_id = ''1'', policyNumber = ''POL-883920'', policyholderName = ''John Doe'',
       vehicleModel = ''Honda Civic'', vehicleYear = ''2020'',
       accidentDetails = ''Rear-ended at a stop sign. Bumper dented.'',
       status = Estimated, damageImages = [],
       aiDamageAssessment = Some (''Observed significant denting on rear bumper cover. ''
         @ ''Impact absorber likely compromised. Trunk lid alignment appears normal.''),
       aiEstimate = Some \<lparr>totalCost = num_of_int 1200, laborCost = num_of_int 500,
         partsCost = num_of_int 700,
         details = Some ''Replace Rear Bumper Cover, Replace Impact Absorber, Paint & Blend.'',
         source = SourceAI\<rparr>,
       aiConfidenceScore = None,
       suggestedShops = Some
         [\<lparr>name = ''Downtown Auto Fix'', address = ''123 Main St'', rating = Some ''4.5'',
           websiteUri = None\<rparr>,
          \<lparr>name = ''Quick Collision'', address = ''44 Broadway'', rating = Some ''4.2'',
           websiteUri = None\<rparr>],
       currentEstimate = Some \<lparr>totalCost = num_of_int 1200, laborCost = num_of_int 500,
         partsCost = num_of_int 700,
         details = Some ''Replace Rear Bumper Cover, Replace Impact Absorber, Paint & Blend.'',
         source = SourceAI\<rparr>,
       repairShopEstimate = None, agentEstimate = None,
       comments = [\<lparr>comment_id = ''c1'', authorRole = Policyholder, authorName = ''John Doe'',
         comment_text = ''Happened yesterday around 5pm.'', timestamp = now1 - 100000\<rparr>],
       createdAt = now2 - 200000, updatedAt = now3\<rparr>]"

definition baseClaim :: "int \<Rightarrow> int \<Rightarrow> int \<Rightarrow> CreateClaimData \<Rightarrow> Claim" where
  "baseClaim now1 now2 now3 d =
     \<lparr>claim_id = toString now1, policyNumber = new_policyNumber d,
      policyholderName = ''Current User'', vehicleModel = new_vehicleModel d,
      vehicleYear = new_vehicleYear d, accidentDetails = new_accidentDetails d,
      status = AIReview, damageImages = [], aiDamageAssessment = None, aiEstimate = None,
      aiConfidenceScore = None, suggestedShops = None, currentEstimate = None,
      repairShopEstimate = None, agentEstimate = None, comments = [],
      createdAt = now2, updatedAt = now3\<rparr>"

text \<open>The body of the \<open>try\<close> block of \<open>handleCreateClaim\<close>, up to the state update.\<close>

definition intake_try ::
  "Services \<Rightarrow> CreateClaimData
     \<Rightarrow> js_error + (string list \<times> DamageAnalysis \<times> RepairShopSuggestion list)" where
  "intake_try sv d =
     (case promise_all (map (\<lambda>file. map_sum id data (fileToGenerativePart sv file)) (images d)) of
        Inl e \<Rightarrow> Inl e
      | Inr processedImages \<Rightarrow>
          (case analyzeDamage sv (images d) (new_vehicleYear d @ '' '' @ new_vehicleModel d) of
             Inl e \<Rightarrow> Inl e
           | Inr analysis \<Rightarrow>
               Inr (processedImages, analysis, findRepairShops sv ''Current Location'')))"

text \<open>The two state updates: with the AI results, and the one of the \<open>catch\<close> block.\<close>

definition aiResultsUpdate ::
  "string \<Rightarrow> string list \<Rightarrow> DamageAnalysis \<Rightarrow> RepairShopSuggestion list \<Rightarrow> Claim \<Rightarrow> Claim" where
  "aiResultsUpdate newId processedImages analysis shops c =
     (if claim_id c = newId
      then c\<lparr>damageImages := processedImages,
             aiDamageAssessment := assessment analysis,
             aiEstimate := Some (estimate analysis),
             currentEstimate := Some (estimate analysis),
             suggestedShops := Some shops,
             status := Estimated\<rparr>
      else c)"

definition fallbackUpdate :: "string \<Rightarrow> Claim \<Rightarrow> Claim" where
  "fallbackUpdate newId c = (if claim_id c = newId then c\<lparr>status := Submitted\<rparr> else c)"

text \<open>\<open>handleCreateClaim\<close>, run to its end with no other update of the store in between:
  the new claim is put in front of the store, then one of the two updates is applied.\<close>

definition handleCreateClaim ::
  "Services \<Rightarrow> int \<Rightarrow> int \<Rightarrow> int \<Rightarrow> CreateClaimData \<Rightarrow> Claim list \<Rightarrow> Claim list" where
  "handleCreateClaim sv now1 now2 now3 d prev =
     (let newId = toString now1;
          claims1 = baseClaim now1 now2 now3 d # prev
      in case intake_try sv d of
           Inr (processedImages, analysis, shops) \<Rightarrow>
             map (aiResultsUpdate newId processedImages analysis shops) claims1
         | Inl e \<Rightarrow> map (fallbackUpdate newId) claims1)"

section \<open>Reachable claim records\<close>

text \<open>
  The records a claim of the store can hold: the mock claim, a claim as the intake first
  stores it, that claim after the intake's update (with the AI results, or the one of the
  \<open>catch\<close> block), and every record obtained from a reachable one by a click on a
  rendered, enabled control, under any role.  The intake's update is taken on the claim as
  first stored: a click made on a claim while its remote calls are still pending, followed
  by the intake's update, is not among the steps.
\<close>

inductive reachable :: "Platform \<Rightarrow> Claim \<Rightarrow> bool" for p :: Platform where
  initial: "c \<in> set (INITIAL_CLAIMS now1 now2 now3) \<Longrightarrow> reachable p c"
| created: "reachable p (baseClaim now1 now2 now3 d)"
| ai_results:
    "reachable p (aiResultsUpdate (toString now1) processedImages analysis shops
       (baseClaim now1 now2 now3 d))"
| fallback: "reachable p (fallbackUpdate (toString now1) (baseClaim now1 now2 now3 d))"
| clicked:
    "reachable p c \<Longrightarrow> click p now1 now2 userRole fs ctl c = Some c' \<Longrightarrow> reachable p c'"

section \<open>Example inputs\<close>

text \<open>
  Concrete inputs for the examples below: the mock claim of the store, a platform whose
  \<open>parseFloat\<close> knows the decimal strings \<open>1500\<close> and \<open>0.9\<close> (the binary64 value nearest to
  \<open>0.9\<close> is \<open>8106479329266893 * 2 ^ -53\<close>) and whose \<open>formatCurrency\<close> knows these two
  amounts, an empty form, and five services: one whose remote call throws, one whose
  remote call answers with text and no grounding data, one whose remote call answers with
  text that \<open>JSON.parse\<close> refuses, one whose remote call answers with no text, and one
  whose remote call answers with a grounding chunk that is \<open>null\<close>.
\<close>

definition example_claim :: Claim where
  "example_claim = hd (INITIAL_CLAIMS 1762100100000 1762100200000 1762100000000)"

definition example_platform :: Platform where
  "example_platform =
     \<lparr>parseFloat = (\<lambda>s. if s = ''1500'' then Finite 375 2
                         else if s = ''0.9'' then Finite 8106479329266893 (- 53)
                         else NaN),
      formatCurrency = (\<lambda>n. if n = Finite 375 2 then ''$1,500.00''
                             else if n = Finite 8106479329266893 (- 53) then ''$0.90''
                             else ''$NaN'')\<rparr>"

definition example_form :: FormState where
  "example_form =
     \<lparr>commentText = [], negotiationAmount = [], negotiationReason = [],
      rejectReason = [], loading = False\<rparr>"

definition failing_services :: Services where
  "failing_services =
     \<lparr>fileToGenerativePart =
        (\<lambda>f. Inr \<lparr>data = ''/9j/4AAQ'', mimeType = file_type f\<rparr>),
      generateContent = (\<lambda>r. Inl (JsError ''API key not valid'')),
      JSON_parse = (\<lambda>s. Inl (JsError ''Unexpected token''))\<rparr>"

definition example_data :: CreateClaimData where
  "example_data =
     \<lparr>new_policyNumber = ''POL-1'', new_vehicleModel = ''Toyota Camry XLE'',
      new_vehicleYear = ''2022'', new_accidentDetails = ''Hit a pole.'',
      images = [\<lparr>file_name = ''front.jpg'', file_type = ''image/jpeg''\<rparr>]\<rparr>"

definition answering_services :: Services where
  "answering_services =
     failing_services\<lparr>generateContent :=
       (\<lambda>r. Inr \<lparr>response_text = Some ''Here are some shops.'', candidates = Some []\<rparr>)\<rparr>"

definition garbled_services :: Services where
  "garbled_services =
     failing_services\<lparr>generateContent :=
       (\<lambda>r. Inr \<lparr>response_text = Some ''Sorry, I cannot help.'', candidates = None\<rparr>)\<rparr>"

definition silent_services :: Services where
  "silent_services =
     failing_services\<lparr>generateContent :=
       (\<lambda>r. Inr \<lparr>response_text = None, candidates = None\<rparr>)\<rparr>"

definition null_chunk_services :: Services where
  "null_chunk_services =
     failing_services\<lparr>generateContent :=
       (\<lambda>r. Inr \<lparr>response_text = Some ''Here are some shops.'',
                  candidates = Some [\<lparr>groundingMetadata =
                    Some \<lparr>groundingChunks = Some (ChunkArray [NullChunk])\<rparr>\<rparr>]\<rparr>)\<rparr>"

section \<open>Auxiliary facts\<close>

lemma num_of_int_0: "num_of_int 0 = Finite 0 0"
  by code_simp

lemma example_claim_status: "status example_claim = Estimated"
  by (simp add: example_claim_def INITIAL_CLAIMS_def)

lemma example_claim_updatedAt: "updatedAt example_claim = 1762100000000"
  by (simp add: example_claim_def INITIAL_CLAIMS_def)

lemma example_claim_comments:
  "map comment_text (comments example_claim) = [''Happened yesterday around 5pm.'']"
  by (simp add: example_claim_def INITIAL_CLAIMS_def)




text \<open>The claim that a finished intake leaves is reachable.\<close>

lemma handleCreateClaim_reachable:
  "reachable p (hd (handleCreateClaim sv now1 now2 now3 d prev))"
  by (auto simp: handleCreateClaim_def Let_def split: sum.splits prod.splits
      intro: reachable.ai_results reachable.fallback)

text \<open>\<open>forEach\<close> over the chunks throws exactly when there is a \<open>null\<close> chunk.\<close>

lemma forEach_chunk_throws:
  "(\<exists>e. forEach_chunk chunks = Inl e) = (NullChunk \<in> set chunks)"
proof (induction chunks)
  case Nil
  show ?case by simp
next
  case (Cons c chunks)
  then show ?case
    by (cases c) (auto split: sum.splits)
qed

lemma spec_table_eval:
  "spec_transition_table (RoleActor r) s i =
     (if i = ApproveEstimate \<and> r = InsuranceAgent \<and> s = Estimated then Some Approved
      else if i = VehicleReceived \<and> r = RepairShop \<and> s = Approved then Some InRepair
      else if i = RepairCompleted \<and> r = RepairShop \<and> s = InRepair then Some PickUpPending
      else if i = PickupConfirmed \<and> r = Policyholder \<and> s = PickUpPending then Some Closed
      else if i = RejectWithReason \<and> r = InsuranceAgent \<and> s \<noteq> Closed \<and> s \<noteq> Rejected
        then Some Rejected
      else None)"
  by (cases r; cases s; cases i) (simp_all add: spec_transition_table_def spec_table_rows_def)


lemma failing_parts:
  "promise_all (map (fileToGenerativePart failing_services) (images example_data))
     = Inr [\<lparr>data = ''/9j/4AAQ'', mimeType = ''image/jpeg''\<rparr>]"
  by (simp add: failing_services_def example_data_def)

lemma failing_generate:
  "generateContent failing_services r = Inl (JsError ''API key not valid'')"
  by (simp add: failing_services_def)




section \<open>Status transitions\<close>

text \<open>
  C1, as stated, fails: no handler validates a transition and nothing raises an
  \<open>InvalidTransition\<close> error.  Counterexample: (Repair Shop, \<open>Closed\<close>, vehicle received) is
  not a row of the table, yet \<open>handleStatusChange\<close> applied to a \<open>Closed\<close> claim with the
  target \<open>InRepair\<close> returns a changed claim with status \<open>InRepair\<close>.
\<close>

theorem handleStatusChange_unchecked_counterexample:
  "spec_transition_table (RoleActor RepairShop) Closed VehicleReceived = None \<and>
   status (example_claim\<lparr>status := Closed\<rparr>) = Closed \<and>
   status (handleStatusChange InRepair (example_claim\<lparr>status := Closed\<rparr>)) = InRepair \<and>
   handleStatusChange InRepair (example_claim\<lparr>status := Closed\<rparr>)
     \<noteq> example_claim\<lparr>status := Closed\<rparr>"
proof -
  have s: "status (handleStatusChange InRepair (example_claim\<lparr>status := Closed\<rparr>)) = InRepair"
    by (simp add: handleStatusChange_def)
  have "handleStatusChange InRepair (example_claim\<lparr>status := Closed\<rparr>)
     \<noteq> example_claim\<lparr>status := Closed\<rparr>"
  proof
    assume "handleStatusChange InRepair (example_claim\<lparr>status := Closed\<rparr>)
      = example_claim\<lparr>status := Closed\<rparr>"
    then have "status (handleStatusChange InRepair (example_claim\<lparr>status := Closed\<rparr>))
      = status (example_claim\<lparr>status := Closed\<rparr>)"
      by simp
    with s show False by simp
  qed
  with s show ?thesis
    by (simp add: spec_table_eval)
qed

text \<open>
  C1, amended.  \<open>handleStatusChange\<close> sets the status it is given, whatever the role and
  the current status.  The guard is in the view: for a (role, status, intent) triple that
  is not in the table, the control of that intent cannot be clicked, so no update is made
  and the claim stays as it is; and whenever a click changes the status of a claim, the
  change is a row of the table for the clicking role.
\<close>

theorem view_guards_transitions:
  "status (handleStatusChange newStatus claim) = newStatus \<and>
   (control_intent ctl = Some intent \<and>
    spec_transition_table (RoleActor userRole) (status claim) intent = None
      \<longrightarrow> click p now1 now2 userRole fs ctl claim = None) \<and>
   (click p now1 now2 userRole fs ctl claim = Some claim' \<and> status claim' \<noteq> status claim
      \<longrightarrow> (\<exists>i. control_intent ctl = Some i \<and>
            spec_transition_table (RoleActor userRole) (status claim) i
              = Some (status claim')))"
proof (intro conjI impI)
  show "status (handleStatusChange newStatus claim) = newStatus"
    by (simp add: handleStatusChange_def)
next
  assume "control_intent ctl = Some intent \<and>
    spec_transition_table (RoleActor userRole) (status claim) intent = None"
  then show "click p now1 now2 userRole fs ctl claim = None"
    by (cases ctl) (auto simp: click_def spec_table_eval split: if_splits)
next
  assume "click p now1 now2 userRole fs ctl claim = Some claim'
    \<and> status claim' \<noteq> status claim"
  then show "\<exists>i. control_intent ctl = Some i \<and>
      spec_transition_table (RoleActor userRole) (status claim) i = Some (status claim')"
    by (cases ctl)
       (auto simp: click_def spec_table_eval handleApproveEstimate_def handleStatusChange_def
          handleRejectClaim_def handleNegotiate_def handleAddComment_def Let_def
          split: if_splits)
qed

theorem view_guards_transitions_witness:
  "control_intent StartRepairButton = Some VehicleReceived \<and>
   spec_transition_table (RoleActor RepairShop) (status (example_claim\<lparr>status := Closed\<rparr>))
     VehicleReceived = None \<and>
   click example_platform 1762100300000 1762100300001 RepairShop example_form
     StartRepairButton (example_claim\<lparr>status := Closed\<rparr>) = None \<and>
   click example_platform 1762100300000 1762100300001 InsuranceAgent example_form
     ApproveEstimateButton example_claim = Some (example_claim\<lparr>status := Approved\<rparr>) \<and>
   status (example_claim\<lparr>status := Approved\<rparr>) \<noteq> status example_claim \<and>
   spec_transition_table (RoleActor InsuranceAgent) (status example_claim) ApproveEstimate
     = Some (status (example_claim\<lparr>status := Approved\<rparr>))"
proof -
  have c: "click example_platform 1762100300000 1762100300001 InsuranceAgent example_form
     ApproveEstimateButton example_claim = Some (example_claim\<lparr>status := Approved\<rparr>)"
    by (simp add: click_def handleApproveEstimate_def example_claim_status)
  have n: "spec_transition_table (RoleActor RepairShop)
     (status (example_claim\<lparr>status := Closed\<rparr>)) VehicleReceived = None"
    by (simp add: spec_table_eval)
  from view_guards_transitions [where newStatus = InRepair and ctl = StartRepairButton
      and intent = VehicleReceived and userRole = RepairShop
      and claim = "example_claim\<lparr>status := Closed\<rparr>" and p = example_platform
      and ?now1.0 = 1762100300000 and ?now2.0 = 1762100300001 and fs = example_form]
    view_guards_transitions [where newStatus = InRepair and ctl = ApproveEstimateButton
      and intent = ApproveEstimate and userRole = InsuranceAgent
      and claim = example_claim and p = example_platform
      and ?now1.0 = 1762100300000 and ?now2.0 = 1762100300001 and fs = example_form
      and claim' = "example_claim\<lparr>status := Approved\<rparr>"]
    c n
  show ?thesis
    by (simp add: example_claim_status)
qed

section \<open>Terminal claims\<close>

text \<open>
  C2, as stated, fails: the handlers do not look at the status and nothing raises a
  \<open>TerminalState\<close> error.  Counterexample: \<open>handleRejectClaim\<close> applied a second time, to a
  claim that is already \<open>Rejected\<close>, appends a second rejection comment.
\<close>

theorem handleRejectClaim_terminal_counterexample:
  "status (handleRejectClaim 1762100300000 1762100300001 ''Fraud suspected'' example_claim)
     = Rejected \<and>
   map comment_text (comments
     (handleRejectClaim 1762100400000 1762100400001 ''Rejected again''
       (handleRejectClaim 1762100300000 1762100300001 ''Fraud suspected'' example_claim)))
     = [''Happened yesterday around 5pm.'', ''CLAIM REJECTED: Fraud suspected'',
        ''CLAIM REJECTED: Rejected again'']"
  by (simp add: handleRejectClaim_def example_claim_comments)

text \<open>
  C2, amended.  On a claim whose status is \<open>Closed\<close> or \<open>Rejected\<close> the view offers no
  status transition and no estimate negotiation, under any role: a click on any control
  but the comment control makes no update, so the claim stays as it is.  The comment
  control remains, and a comment changes nothing but the comment list.
\<close>

theorem terminal_claim_controls:
  "status claim = Closed \<or> status claim = Rejected \<Longrightarrow>
   (ctl \<noteq> SendCommentButton \<longrightarrow> click p now1 now2 userRole fs ctl claim = None) \<and>
   click p now1 now2 userRole fs SendCommentButton claim
     = Some (handleAddComment now1 now2 userRole (commentText fs) claim) \<and>
   (handleAddComment now1 now2 userRole (commentText fs) claim)
      \<lparr>comments := comments claim\<rparr> = claim"
  by (cases ctl) (auto simp: click_def handleAddComment_def)

theorem terminal_claim_controls_witness:
  "status (example_claim\<lparr>status := Closed\<rparr>) = Closed \<and>
   click example_platform 1762100300000 1762100300001 RepairShop
     (example_form\<lparr>negotiationAmount := ''1500'', negotiationReason := ''Hidden damage''\<rparr>)
     SubmitAdjustmentButton (example_claim\<lparr>status := Closed\<rparr>) = None \<and>
   map_option (\<lambda>c. map comment_text (comments c))
     (click example_platform 1762100300000 1762100300001 Policyholder
       (example_form\<lparr>commentText := ''Thanks''\<rparr>) SendCommentButton
       (example_claim\<lparr>status := Closed\<rparr>))
     = Some [''Happened yesterday around 5pm.'', ''Thanks'']"
proof -
  have t: "status (example_claim\<lparr>status := Closed\<rparr>) = Closed
           \<or> status (example_claim\<lparr>status := Closed\<rparr>) = Rejected"
    by simp
  from terminal_claim_controls [OF t, of SubmitAdjustmentButton example_platform
      1762100300000 1762100300001 RepairShop
      "example_form\<lparr>negotiationAmount := ''1500'', negotiationReason := ''Hidden damage''\<rparr>"]
    terminal_claim_controls [OF t, of SendCommentButton example_platform
      1762100300000 1762100300001 Policyholder "example_form\<lparr>commentText := ''Thanks''\<rparr>"]
    example_claim_comments
  show ?thesis
    by (simp add: handleAddComment_def trim_def is_space_def example_form_def)
qed

section \<open>The current estimate\<close>




section \<open>Rejection\<close>

text \<open>
  C4.  A rejection with an empty reason leaves the claim as it is.  With a non-empty
  reason the handler produces, in one update, the claim with status \<open>Rejected\<close> and exactly
  one more comment, whose text is \<open>CLAIM REJECTED: \<close> followed by the reason and whose
  author role is the Insurance Agent; nothing else of the claim changes.
\<close>

theorem handleRejectClaim_atomic:
  "(reason = [] \<longrightarrow> handleRejectClaim now1 now2 reason claim = claim) \<and>
   (reason \<noteq> [] \<longrightarrow>
      status (handleRejectClaim now1 now2 reason claim) = Rejected \<and>
      comments (handleRejectClaim now1 now2 reason claim)
        = comments claim @ [last (comments (handleRejectClaim now1 now2 reason claim))] \<and>
      comment_text (last (comments (handleRejectClaim now1 now2 reason claim)))
        = ''CLAIM REJECTED: '' @ reason \<and>
      authorRole (last (comments (handleRejectClaim now1 now2 reason claim)))
        = InsuranceAgent \<and>
      (handleRejectClaim now1 now2 reason claim)
        \<lparr>status := status claim, comments := comments claim\<rparr> = claim)"
  by (simp add: handleRejectClaim_def)

theorem handleRejectClaim_atomic_witness:
  "handleRejectClaim 1762100300000 1762100300001 [] example_claim = example_claim \<and>
   status example_claim = Estimated \<and>
   status (handleRejectClaim 1762100300000 1762100300001 ''Fraud suspected'' example_claim)
     = Rejected \<and>
   comment_text (last (comments
     (handleRejectClaim 1762100300000 1762100300001 ''Fraud suspected'' example_claim)))
     = ''CLAIM REJECTED: Fraud suspected'' \<and>
   authorRole (last (comments
     (handleRejectClaim 1762100300000 1762100300001 ''Fraud suspected'' example_claim)))
     = InsuranceAgent \<and>
   length (comments
     (handleRejectClaim 1762100300000 1762100300001 ''Fraud suspected'' example_claim))
     = length (comments example_claim) + 1"
proof -
  have ne: "''Fraud suspected'' \<noteq> []" by simp
  note r = handleRejectClaim_atomic
    [of "''Fraud suspected''" 1762100300000 1762100300001 example_claim]
  note e = handleRejectClaim_atomic [of "[]" 1762100300000 1762100300001 example_claim]
  from r ne have
    "comments (handleRejectClaim 1762100300000 1762100300001 ''Fraud suspected'' example_claim)
      = comments example_claim @ [last (comments
         (handleRejectClaim 1762100300000 1762100300001 ''Fraud suspected'' example_claim))]"
    by blast
  then have "length (comments
     (handleRejectClaim 1762100300000 1762100300001 ''Fraud suspected'' example_claim))
     = length (comments example_claim) + 1"
    by (metis length_append_singleton Suc_eq_plus1)
  with r e ne show ?thesis
    by (simp add: example_claim_status)
qed

section \<open>Intake when the AI call fails\<close>




section \<open>The update time\<close>

text \<open>
  C6, as stated, fails: no handler writes \<open>updatedAt\<close>.  Counterexample: an agent proposal
  made at clock reading 1762100300001 on the mock claim appends a comment with that time
  stamp and leaves \<open>updatedAt\<close> at 1762100000000.
\<close>

theorem updatedAt_stale_counterexample:
  "updatedAt example_claim = 1762100000000 \<and>
   timestamp (last (comments
     (handleNegotiate example_platform 1762100300000 1762100300001 InsuranceAgent
        ''1500'' ''Hidden damage'' example_claim))) = 1762100300001 \<and>
   updatedAt (handleNegotiate example_platform 1762100300000 1762100300001 InsuranceAgent
        ''1500'' ''Hidden damage'' example_claim) = 1762100000000"
  by (simp add: handleNegotiate_def negotiationComment_def Let_def example_claim_updatedAt)

text \<open>
  C6, amended.  No mutation of a claim made by a handler of the claim view writes
  \<open>updatedAt\<close>: a status transition, an approval, a rejection, an estimate proposal and a
  comment addition all leave it at the value it had.
\<close>

theorem handlers_keep_updatedAt:
  "updatedAt (handleStatusChange newStatus claim) = updatedAt claim \<and>
   updatedAt (handleApproveEstimate claim) = updatedAt claim \<and>
   updatedAt (handleRejectClaim now1 now2 reason claim) = updatedAt claim \<and>
   updatedAt (handleNegotiate p now1 now2 userRole amount reason claim) = updatedAt claim \<and>
   updatedAt (handleAddComment now1 now2 userRole comment claim) = updatedAt claim"
  by (simp add: handleStatusChange_def handleApproveEstimate_def handleRejectClaim_def
      handleNegotiate_def handleAddComment_def Let_def)

theorem handlers_keep_updatedAt_witness:
  "updatedAt (handleStatusChange InRepair example_claim) = 1762100000000 \<and>
   updatedAt (handleApproveEstimate example_claim) = 1762100000000 \<and>
   updatedAt (handleRejectClaim 1762100300000 1762100300001 ''Hidden damage'' example_claim)
     = 1762100000000 \<and>
   updatedAt (handleNegotiate example_platform 1762100300000 1762100300001 RepairShop
     ''1500'' ''Hidden damage'' example_claim) = 1762100000000 \<and>
   updatedAt (handleAddComment 1762100300000 1762100300001 RepairShop ''Thanks''
     example_claim) = 1762100000000"
  using handlers_keep_updatedAt [where newStatus = InRepair and claim = example_claim
      and ?now1.0 = 1762100300000 and ?now2.0 = 1762100300001
      and reason = "''Hidden damage''" and p = example_platform and userRole = RepairShop
      and amount = "''1500''" and comment = "''Thanks''"]
  by (simp add: example_claim_updatedAt)

section \<open>Estimate proposals\<close>

text \<open>
  C7, as stated, fails: the costs are binary64 numbers, and the rounded products do not
  always add up to the total.  Counterexample: a Repair Shop proposal of \<open>0.9\<close>; the stored
  estimate has labor cost \<open>0.54\<close>, parts cost \<open>0.36000000000000004\<close>, and their sum is
  \<open>0.9000000000000001\<close>, which is not the total cost.
\<close>

theorem cost_split_counterexample:
  "repairShopEstimate (handleNegotiate example_platform 1762100300000 1762100300001
     RepairShop ''0.9'' ''Touch-up paint'' example_claim)
     = Some (newEstimate example_platform RepairShop ''0.9'' ''Touch-up paint'') \<and>
   totalCost (newEstimate example_platform RepairShop ''0.9'' ''Touch-up paint'')
     = Finite 8106479329266893 (- 53) \<and>
   laborCost (newEstimate example_platform RepairShop ''0.9'' ''Touch-up paint'')
     = Finite 607985949695017 (- 50) \<and>
   partsCost (newEstimate example_platform RepairShop ''0.9'' ''Touch-up paint'')
     = Finite 6485183463413515 (- 54) \<and>
   num_add (laborCost (newEstimate example_platform RepairShop ''0.9'' ''Touch-up paint''))
       (partsCost (newEstimate example_platform RepairShop ''0.9'' ''Touch-up paint''))
     = Finite 4053239664633447 (- 52) \<and>
   \<not> strict_eq
       (num_add (laborCost (newEstimate example_platform RepairShop ''0.9'' ''Touch-up paint''))
          (partsCost (newEstimate example_platform RepairShop ''0.9'' ''Touch-up paint'')))
       (totalCost (newEstimate example_platform RepairShop ''0.9'' ''Touch-up paint''))"
proof -
  have p: "parseFloat example_platform ''0.9'' = Finite 8106479329266893 (- 53)"
    by (simp add: example_platform_def)
  have l: "num_mul (Finite 8106479329266893 (- 53)) lit_0_6 = Finite 607985949695017 (- 50)"
    by code_simp
  have q: "num_mul (Finite 8106479329266893 (- 53)) lit_0_4 = Finite 6485183463413515 (- 54)"
    by code_simp
  have a: "num_add (Finite 607985949695017 (- 50)) (Finite 6485183463413515 (- 54))
      = Finite 4053239664633447 (- 52)"
    by code_simp
  have s: "repairShopEstimate (handleNegotiate example_platform 1762100300000 1762100300001
     RepairShop ''0.9'' ''Touch-up paint'' example_claim)
     = Some (newEstimate example_platform RepairShop ''0.9'' ''Touch-up paint'')"
    by (simp add: handleNegotiate_def Let_def)
  from p l q a s show ?thesis
    by (simp add: newEstimate_def Let_def strict_eq_def is_zero_def)
qed

text \<open>
  C7, amended.  For every successful proposal with parsed amount \<open>t\<close>, the stored estimate
  has total cost \<open>t\<close>, labor cost the binary64 product \<open>t * 0.6\<close> and parts cost the binary64
  product \<open>t * 0.4\<close>.  (Their sum is not claimed to equal the total.)
\<close>

theorem proposal_cost_split:
  "amount \<noteq> [] \<Longrightarrow> reason \<noteq> [] \<Longrightarrow>
   map_option (\<lambda>e. (totalCost e, laborCost e, partsCost e))
     (repairShopEstimate (handleNegotiate p now1 now2 RepairShop amount reason claim))
     = Some (parseFloat p amount, num_mul (parseFloat p amount) lit_0_6,
             num_mul (parseFloat p amount) lit_0_4) \<and>
   map_option (\<lambda>e. (totalCost e, laborCost e, partsCost e))
     (agentEstimate (handleNegotiate p now1 now2 InsuranceAgent amount reason claim))
     = Some (parseFloat p amount, num_mul (parseFloat p amount) lit_0_6,
             num_mul (parseFloat p amount) lit_0_4)"
  by (simp add: handleNegotiate_def newEstimate_def Let_def)

theorem proposal_cost_split_witness:
  "''1500'' \<noteq> [] \<and> ''Hidden damage'' \<noteq> [] \<and>
   map_option (\<lambda>e. (totalCost e, laborCost e, partsCost e))
     (repairShopEstimate (handleNegotiate example_platform 1762100300000 1762100300001
        RepairShop ''1500'' ''Hidden damage'' example_claim))
     = Some (Finite 375 2, Finite 225 2, Finite 75 3) \<and>
   map_option (\<lambda>e. (totalCost e, laborCost e, partsCost e))
     (agentEstimate (handleNegotiate example_platform 1762100300000 1762100300001
        InsuranceAgent ''1500'' ''Hidden damage'' example_claim))
     = Some (Finite 375 2, Finite 225 2, Finite 75 3)"
proof -
  have a: "''1500'' \<noteq> []" and r: "''Hidden damage'' \<noteq> []"
    by simp_all
  have p: "parseFloat example_platform ''1500'' = Finite 375 2"
    by (simp add: example_platform_def)
  have l: "num_mul (Finite 375 2) lit_0_6 = Finite 225 2"
    by code_simp
  have q: "num_mul (Finite 375 2) lit_0_4 = Finite 75 3"
    by code_simp
  from proposal_cost_split [OF a r, of example_platform 1762100300000 1762100300001
      example_claim] p l q
  show ?thesis by simp
qed

text \<open>
  C8.  For every successful estimate proposal (amount and justification not empty): a
  Repair Shop proposal is stored in \<open>repairShopEstimate\<close> (the parsed amount as total cost,
  its split, the justification as details, source Repair Shop) and leaves
  \<open>currentEstimate\<close> as it was; an Insurance Agent proposal is stored in \<open>agentEstimate\<close>
  (source Insurance Agent) and overwrites \<open>currentEstimate\<close>; in both cases exactly one
  comment is appended, with the text
  \<open>Proposed new estimate: <formatted amount>. Reason: <justification>\<close> and the proposing
  role as author, and no other field of the claim changes.
\<close>

theorem handleNegotiate_routing:
  "amount \<noteq> [] \<Longrightarrow> reason \<noteq> [] \<Longrightarrow>
   handleNegotiate p now1 now2 RepairShop amount reason claim
     = claim\<lparr>repairShopEstimate := Some
               \<lparr>totalCost = parseFloat p amount,
                laborCost = num_mul (parseFloat p amount) lit_0_6,
                partsCost = num_mul (parseFloat p amount) lit_0_4,
                details = Some reason, source = SourceRepairShop\<rparr>,
             comments := comments claim @
               [\<lparr>comment_id = toString now1, authorRole = RepairShop,
                 authorName = ''Repair Shop'',
                 comment_text = ''Proposed new estimate: ''
                   @ formatCurrency p (parseFloat p amount) @ ''. Reason: '' @ reason,
                 timestamp = now2\<rparr>]\<rparr> \<and>
   currentEstimate (handleNegotiate p now1 now2 RepairShop amount reason claim)
     = currentEstimate claim \<and>
   handleNegotiate p now1 now2 InsuranceAgent amount reason claim
     = claim\<lparr>agentEstimate := Some
               \<lparr>totalCost = parseFloat p amount,
                laborCost = num_mul (parseFloat p amount) lit_0_6,
                partsCost = num_mul (parseFloat p amount) lit_0_4,
                details = Some reason, source = SourceInsuranceAgent\<rparr>,
             currentEstimate := Some
               \<lparr>totalCost = parseFloat p amount,
                laborCost = num_mul (parseFloat p amount) lit_0_6,
                partsCost = num_mul (parseFloat p amount) lit_0_4,
                details = Some reason, source = SourceInsuranceAgent\<rparr>,
             comments := comments claim @
               [\<lparr>comment_id = toString now1, authorRole = InsuranceAgent,
                 authorName = ''Insurance Agent'',
                 comment_text = ''Proposed new estimate: ''
                   @ formatCurrency p (parseFloat p amount) @ ''. Reason: '' @ reason,
                 timestamp = now2\<rparr>]\<rparr>"
  by (simp add: handleNegotiate_def newEstimate_def negotiationComment_def Let_def)

theorem handleNegotiate_routing_witness:
  "''1500'' \<noteq> [] \<and> ''Hidden damage'' \<noteq> [] \<and>
   repairShopEstimate
     (handleNegotiate example_platform 1762100300000 1762100300001 RepairShop
        ''1500'' ''Hidden damage'' example_claim)
     = Some \<lparr>totalCost = Finite 375 2, laborCost = Finite 225 2, partsCost = Finite 75 3,
             details = Some ''Hidden damage'', source = SourceRepairShop\<rparr> \<and>
   currentEstimate
     (handleNegotiate example_platform 1762100300000 1762100300001 RepairShop
        ''1500'' ''Hidden damage'' example_claim) = currentEstimate example_claim \<and>
   agentEstimate
     (handleNegotiate example_platform 1762100300000 1762100300001 InsuranceAgent
        ''1500'' ''Hidden damage'' example_claim)
     = Some \<lparr>totalCost = Finite 375 2, laborCost = Finite 225 2, partsCost = Finite 75 3,
             details = Some ''Hidden damage'', source = SourceInsuranceAgent\<rparr> \<and>
   currentEstimate
     (handleNegotiate example_platform 1762100300000 1762100300001 InsuranceAgent
        ''1500'' ''Hidden damage'' example_claim)
     = Some \<lparr>totalCost = Finite 375 2, laborCost = Finite 225 2, partsCost = Finite 75 3,
             details = Some ''Hidden damage'', source = SourceInsuranceAgent\<rparr> \<and>
   map comment_text (comments
     (handleNegotiate example_platform 1762100300000 1762100300001 InsuranceAgent
        ''1500'' ''Hidden damage'' example_claim))
     = [''Happened yesterday around 5pm.'',
        ''Proposed new estimate: $1,500.00. Reason: Hidden damage''] \<and>
   map authorRole (comments
     (handleNegotiate example_platform 1762100300000 1762100300001 InsuranceAgent
        ''1500'' ''Hidden damage'' example_claim))
     = [Policyholder, InsuranceAgent] \<and>
   map authorRole (comments
     (handleNegotiate example_platform 1762100300000 1762100300001 RepairShop
        ''1500'' ''Hidden damage'' example_claim))
     = [Policyholder, RepairShop]"
proof -
  have a: "''1500'' \<noteq> []" and r: "''Hidden damage'' \<noteq> []"
    by simp_all
  have c: "map authorRole (comments example_claim) = [Policyholder]"
    by (simp add: example_claim_def INITIAL_CLAIMS_def)
  have p: "parseFloat example_platform ''1500'' = Finite 375 2"
    by (simp add: example_platform_def)
  have f: "formatCurrency example_platform (Finite 375 2) = ''$1,500.00''"
    by (simp add: example_platform_def)
  have l: "num_mul (Finite 375 2) lit_0_6 = Finite 225 2"
    by code_simp
  have q: "num_mul (Finite 375 2) lit_0_4 = Finite 75 3"
    by code_simp
  note h = handleNegotiate_routing [OF a r, of example_platform 1762100300000 1762100300001
      example_claim]
  from h p f l q c example_claim_comments show ?thesis
    by simp
qed

section \<open>The AI service\<close>

text \<open>
  C9, as stated, fails for a malformed response that does not make the code throw.
  Counterexample: the image is read and the remote call answers with no text; the code
  decodes \<open>{}\<close> in its place and resolves with an assessment and costs that are
  \<open>undefined\<close>, which is neither the degraded result nor an error.
\<close>

theorem analyzeDamage_no_text_counterexample:
  "generateContent silent_services
     (DamageRequest [\<lparr>data = ''/9j/4AAQ'', mimeType = ''image/jpeg''\<rparr>]
        ''2022 Toyota Camry XLE'')
     = Inr \<lparr>response_text = None, candidates = None\<rparr> \<and>
   analyzeDamage silent_services (images example_data) ''2022 Toyota Camry XLE''
     = Inr \<lparr>assessment = None,
            estimate = \<lparr>totalCost = Undefined, laborCost = Undefined,
                        partsCost = Undefined, details = None, source = SourceAI\<rparr>\<rparr> \<and>
   analyzeDamage silent_services (images example_data) ''2022 Toyota Camry XLE''
     \<noteq> Inr damage_fallback"
proof -
  have g: "generateContent silent_services r
      = Inr \<lparr>response_text = None, candidates = None\<rparr>" for r
    by (simp add: silent_services_def)
  have f: "promise_all (map (fileToGenerativePart silent_services) (images example_data))
      = Inr [\<lparr>data = ''/9j/4AAQ'', mimeType = ''image/jpeg''\<rparr>]"
    by (simp add: silent_services_def failing_services_def example_data_def)
  have a: "analyzeDamage silent_services (images example_data) ''2022 Toyota Camry XLE''
     = Inr \<lparr>assessment = None,
            estimate = \<lparr>totalCost = Undefined, laborCost = Undefined,
                        partsCost = Undefined, details = None, source = SourceAI\<rparr>\<rparr>"
    by (simp add: analyzeDamage_def f damage_try_def g parse_text_def empty_object_def)
  have "analyzeDamage silent_services (images example_data) ''2022 Toyota Camry XLE''
     \<noteq> Inr damage_fallback"
  proof
    assume "analyzeDamage silent_services (images example_data) ''2022 Toyota Camry XLE''
      = Inr damage_fallback"
    with a have "assessment damage_fallback = None"
      by (metis DamageAnalysis.select_convs(1) sum.inject(2))
    then show False
      by (simp add: damage_fallback_def)
  qed
  with g a show ?thesis
    by simp
qed

text \<open>
  C9, amended.  \<open>analyzeDamage\<close> rejects only when reading an image file fails, before the
  AI call is made.  Whenever the AI call is made and throws, or decoding its response text
  throws or gives \<open>null\<close>, \<open>analyzeDamage\<close> returns the degraded result: the assessment
  \<open>AI Analysis unavailable. Please review manually.\<close> and an estimate with total, labor
  and parts cost 0, details \<open>Manual estimation required.\<close> and source AI.
\<close>

theorem analyzeDamage_degrades:
  "(analyzeDamage sv imageFiles vehicleInfo = Inl e
      \<longrightarrow> promise_all (map (fileToGenerativePart sv) imageFiles) = Inl e) \<and>
   (promise_all (map (fileToGenerativePart sv) imageFiles) = Inr imageParts \<and>
    (generateContent sv (DamageRequest imageParts vehicleInfo) = Inl e'
     \<or> (generateContent sv (DamageRequest imageParts vehicleInfo) = Inr response \<and>
         (parse_text sv (case response_text response of
                           None \<Rightarrow> ''{}''
                         | Some t \<Rightarrow> if t = [] then ''{}'' else t) = Inl e'
          \<or> parse_text sv (case response_text response of
                              None \<Rightarrow> ''{}''
                            | Some t \<Rightarrow> if t = [] then ''{}'' else t) = Inr JNull)))
      \<longrightarrow> analyzeDamage sv imageFiles vehicleInfo = Inr damage_fallback) \<and>
   assessment damage_fallback = Some ''AI Analysis unavailable. Please review manually.'' \<and>
   estimate damage_fallback
     = \<lparr>totalCost = Finite 0 0, laborCost = Finite 0 0, partsCost = Finite 0 0,
        details = Some ''Manual estimation required.'', source = SourceAI\<rparr>"
  by (auto simp: analyzeDamage_def damage_try_def damage_fallback_def num_of_int_0
      split: sum.splits)

theorem analyzeDamage_degrades_witness:
  "promise_all (map (fileToGenerativePart failing_services) (images example_data))
     = Inr [\<lparr>data = ''/9j/4AAQ'', mimeType = ''image/jpeg''\<rparr>] \<and>
   generateContent failing_services
     (DamageRequest [\<lparr>data = ''/9j/4AAQ'', mimeType = ''image/jpeg''\<rparr>]
        ''2022 Toyota Camry XLE'')
     = Inl (JsError ''API key not valid'') \<and>
   analyzeDamage failing_services (images example_data) ''2022 Toyota Camry XLE''
     = Inr damage_fallback \<and>
   promise_all (map (fileToGenerativePart garbled_services) (images example_data))
     = Inr [\<lparr>data = ''/9j/4AAQ'', mimeType = ''image/jpeg''\<rparr>] \<and>
   generateContent garbled_services
     (DamageRequest [\<lparr>data = ''/9j/4AAQ'', mimeType = ''image/jpeg''\<rparr>]
        ''2022 Toyota Camry XLE'')
     = Inr \<lparr>response_text = Some ''Sorry, I cannot help.'', candidates = None\<rparr> \<and>
   parse_text garbled_services ''Sorry, I cannot help.''
     = Inl (JsError ''Unexpected token'') \<and>
   analyzeDamage garbled_services (images example_data) ''2022 Toyota Camry XLE''
     = Inr damage_fallback"
proof -
  have g: "generateContent garbled_services
     (DamageRequest [\<lparr>data = ''/9j/4AAQ'', mimeType = ''image/jpeg''\<rparr>]
        ''2022 Toyota Camry XLE'')
     = Inr \<lparr>response_text = Some ''Sorry, I cannot help.'', candidates = None\<rparr>"
    by (simp add: garbled_services_def)
  have f: "promise_all (map (fileToGenerativePart garbled_services) (images example_data))
     = Inr [\<lparr>data = ''/9j/4AAQ'', mimeType = ''image/jpeg''\<rparr>]"
    by (simp add: garbled_services_def failing_services_def example_data_def)
  have j: "parse_text garbled_services ''Sorry, I cannot help.''
     = Inl (JsError ''Unexpected token'')"
    by (simp add: parse_text_def garbled_services_def failing_services_def)
  from analyzeDamage_degrades [of failing_services "images example_data"
      "''2022 Toyota Camry XLE''" _ "[\<lparr>data = ''/9j/4AAQ'', mimeType = ''image/jpeg''\<rparr>]"
      "JsError ''API key not valid''"]
    analyzeDamage_degrades [of garbled_services "images example_data"
      "''2022 Toyota Camry XLE''" _ "[\<lparr>data = ''/9j/4AAQ'', mimeType = ''image/jpeg''\<rparr>]"
      "JsError ''Unexpected token''"
      "\<lparr>response_text = Some ''Sorry, I cannot help.'', candidates = None\<rparr>"]
    failing_parts failing_generate g f j
  show ?thesis
    by simp
qed

text \<open>
  C10, as stated, fails: the \<open>try\<close> block of \<open>findRepairShops\<close> also holds the processing
  of the response.  Counterexample: the remote call succeeds with a grounding chunk that
  is \<open>null\<close>; reading its \<open>web\<close> property throws, and the function returns the empty list.
\<close>

theorem findRepairShops_null_chunk_counterexample:
  "generateContent null_chunk_services (ShopsRequest ''Current Location'')
     = Inr \<lparr>response_text = Some ''Here are some shops.'',
            candidates = Some [\<lparr>groundingMetadata =
              Some \<lparr>groundingChunks = Some (ChunkArray [NullChunk])\<rparr>\<rparr>]\<rparr> \<and>
   findRepairShops null_chunk_services ''Current Location'' = []"
  by (simp add: null_chunk_services_def findRepairShops_def shops_try_def
      extract_suggestions_def response_chunks_def)

text \<open>
  C10, amended.  When the remote call of \<open>findRepairShops\<close> succeeds and the processing of
  its response does not throw, the result is not empty: it is the fixed list of three
  shops (FixItRight Auto Body, Prestige Collision Center, Quick Fix Garage) when no
  suggestion is extracted from the response, and the extracted suggestions otherwise.  The
  result is empty only when the remote call throws or the processing of its response
  throws; the processing throws exactly when the grounding chunks are a truthy value that
  is not an array, or an array with a \<open>null\<close> entry.
\<close>

theorem findRepairShops_nonempty:
  "(generateContent sv (ShopsRequest locationDesc) = Inr response \<and>
    extract_suggestions response = Inr suggestions
      \<longrightarrow> findRepairShops sv locationDesc \<noteq> [] \<and>
          (suggestions = [] \<longrightarrow> findRepairShops sv locationDesc = fixed_shops) \<and>
          (suggestions \<noteq> [] \<longrightarrow> findRepairShops sv locationDesc = suggestions)) \<and>
   (findRepairShops sv locationDesc = []
      \<longrightarrow> (\<exists>e. generateContent sv (ShopsRequest locationDesc) = Inl e)
          \<or> (\<exists>r e. generateContent sv (ShopsRequest locationDesc) = Inr r \<and>
                    extract_suggestions r = Inl e)) \<and>
   ((\<exists>e. extract_suggestions response = Inl e)
      = (response_chunks response = Some NotAnArray
         \<or> (\<exists>chunks. response_chunks response = Some (ChunkArray chunks) \<and>
                      NullChunk \<in> set chunks))) \<and>
   map name fixed_shops
     = [''FixItRight Auto Body'', ''Prestige Collision Center'', ''Quick Fix Garage'']"
proof (intro conjI impI)
  assume a: "generateContent sv (ShopsRequest locationDesc) = Inr response \<and>
    extract_suggestions response = Inr suggestions"
  then show "findRepairShops sv locationDesc \<noteq> []"
    by (simp add: findRepairShops_def shops_try_def fixed_shops_def)
  {
    assume "suggestions = []"
    with a show "findRepairShops sv locationDesc = fixed_shops"
      by (simp add: findRepairShops_def shops_try_def)
  }
  {
    assume "suggestions \<noteq> []"
    with a show "findRepairShops sv locationDesc = suggestions"
      by (simp add: findRepairShops_def shops_try_def)
  }
next
  assume "findRepairShops sv locationDesc = []"
  then show "(\<exists>e. generateContent sv (ShopsRequest locationDesc) = Inl e)
          \<or> (\<exists>r e. generateContent sv (ShopsRequest locationDesc) = Inr r \<and>
                    extract_suggestions r = Inl e)"
    by (auto simp: findRepairShops_def shops_try_def fixed_shops_def
        split: sum.splits if_splits)
next
  show "(\<exists>e. extract_suggestions response = Inl e)
      = (response_chunks response = Some NotAnArray
         \<or> (\<exists>chunks. response_chunks response = Some (ChunkArray chunks) \<and>
                      NullChunk \<in> set chunks))"
    by (auto simp: extract_suggestions_def forEach_chunk_throws
        split: option.splits ChunksValue.splits)
next
  show "map name fixed_shops
     = [''FixItRight Auto Body'', ''Prestige Collision Center'', ''Quick Fix Garage'']"
    by (simp add: fixed_shops_def)
qed

theorem findRepairShops_nonempty_witness:
  "generateContent answering_services (ShopsRequest ''Current Location'')
     = Inr \<lparr>response_text = Some ''Here are some shops.'', candidates = Some []\<rparr> \<and>
   extract_suggestions \<lparr>response_text = Some ''Here are some shops.'', candidates = Some []\<rparr>
     = Inr [] \<and>
   findRepairShops answering_services ''Current Location'' = fixed_shops \<and>
   length (findRepairShops answering_services ''Current Location'') = 3 \<and>
   findRepairShops failing_services ''Current Location'' = [] \<and>
   generateContent failing_services (ShopsRequest ''Current Location'')
     = Inl (JsError ''API key not valid'')"
proof -
  have g: "generateContent answering_services (ShopsRequest ''Current Location'')
     = Inr \<lparr>response_text = Some ''Here are some shops.'', candidates = Some []\<rparr>"
    by (simp add: answering_services_def)
  have x: "extract_suggestions
     \<lparr>response_text = Some ''Here are some shops.'', candidates = Some []\<rparr> = Inr []"
    by (simp add: extract_suggestions_def response_chunks_def)
  have f: "findRepairShops failing_services ''Current Location'' = []"
    by (simp add: findRepairShops_def shops_try_def failing_generate)
  have n: "length fixed_shops = 3"
    by (simp add: fixed_shops_def)
  from findRepairShops_nonempty [of answering_services "''Current Location''"
      "\<lparr>response_text = Some ''Here are some shops.'', candidates = Some []\<rparr>" "[]"]
    g x f n
  show ?thesis
    by (simp add: failing_generate)
qed

end
